theory Spec2Isabelle
  imports Complex_Main "HOL-Library.AList" "HOL-Library.Log_Nat"
begin

section \<open>Arithmetic of the simulation\<close>

text \<open>
  The server computes with Go's \<^verbatim>\<open>float64\<close>. The arithmetic the source uses is kept as a
  parameter of the model, so that every function of \<^verbatim>\<open>server.go\<close> is translated once and
  can be read in two ways: over the real numbers (the mathematical law the physics
  implements) and over IEEE-754 binary64 with every operation rounded to nearest, ties to
  even (what the machine computes). Go's untyped constants (\<^verbatim>\<open>G\<close>, \<^verbatim>\<open>StarMass\<close>, \<^verbatim>\<open>0.1\<close>, ...)
  are exact numbers; \<open>fconst\<close> is their conversion to the float type.
\<close>

record 'a arith =
  fconst :: "real \<Rightarrow> 'a"
  fadd :: "'a \<Rightarrow> 'a \<Rightarrow> 'a"
  fmul :: "'a \<Rightarrow> 'a \<Rightarrow> 'a"
  fdiv :: "'a \<Rightarrow> 'a \<Rightarrow> 'a"
  fsqrt :: "'a \<Rightarrow> 'a"
  fless :: "'a \<Rightarrow> 'a \<Rightarrow> bool"

text \<open>The part of Go's \<^verbatim>\<open>math\<close> package that \<^verbatim>\<open>randomPosition\<close> uses.\<close>

record 'a mathlib =
  Pi :: 'a
  Cos :: "'a \<Rightarrow> 'a"
  Sin :: "'a \<Rightarrow> 'a"

definition exact :: "real arith" where
  "exact = \<lparr>fconst = (\<lambda>x. x), fadd = (+), fmul = (*), fdiv = (/), fsqrt = sqrt, fless = (<)\<rparr>"

definition exact_math :: "real mathlib" where
  "exact_math = \<lparr>Pi = pi, Cos = cos, Sin = sin\<rparr>"

section \<open>IEEE-754 binary64\<close>

text \<open>
  A \<^verbatim>\<open>float64\<close> is a finite number with its sign bit (\<open>True\<close> is negative, so that the two
  zeros are told apart) and its magnitude, an infinity, or NaN. A finite result is the
  exact result rounded to 53 significant bits, to nearest and ties to even, with gradual
  underflow below \<open>2 powi - 1022\<close> and overflow to infinity from \<open>2 ^ 1024\<close>. Operations are
  rounded one by one, as Go compiles them where it does not fuse a multiplication into
  the addition that follows.
\<close>

datatype float64 = Finite bool real | Infinity bool | NaN

text \<open>The binary exponent of a positive number: the \<open>k\<close> with \<open>2 powi k \<le> a < 2 powi (k + 1)\<close>.\<close>

definition ilog2 :: "real \<Rightarrow> int" where
  "ilog2 a = (if 1 \<le> a then bitlen \<lfloor>a\<rfloor> - 1 else - bitlen (\<lceil>1 / a\<rceil> - 1))"

text \<open>The nearest integer, the even one of two that are equally near.\<close>

definition rne :: "real \<Rightarrow> int" where
  "rne x =
     (let n = \<lfloor>x\<rfloor>; f = x - of_int n
      in if f < 1 / 2 then n else if 1 / 2 < f then n + 1 else if even n then n else n + 1)"

definition round64 :: "bool \<Rightarrow> real \<Rightarrow> float64" where
  "round64 s a =
     (if a = 0 then Finite s 0
      else let e = max (ilog2 a - 52) (- 1074);
               v = of_int (rne (a / 2 powi e)) * 2 powi e
           in if 2 ^ 1024 \<le> v then Infinity s else Finite s v)"

text \<open>
  The correctly rounded square root, as \<^verbatim>\<open>math.Sqrt\<close> returns it: the integer square root of
  the scaled argument gives 53 bits, and the comparison with the midpoint the rounding.
\<close>

function isqrt :: "int \<Rightarrow> int" where
  "isqrt n =
     (if n \<le> 0 then 0
      else let r = 2 * isqrt (n div 4) in if (r + 1) * (r + 1) \<le> n then r + 1 else r)"
  by pat_completeness auto
termination
  by (relation "measure nat") auto

declare isqrt.simps [simp del]

definition sqrt64 :: "real \<Rightarrow> real" where
  "sqrt64 a =
     (let e = ilog2 a div 2 - 52;
          t = a / 4 powi e;
          m = isqrt \<lfloor>t\<rfloor>;
          h = of_int (m * m + m) + 1 / 4
      in of_int (if t < h then m else if h < t then m + 1 else if even m then m else m + 1)
           * 2 powi e)"

definition fval :: "bool \<Rightarrow> real \<Rightarrow> real" where
  "fval s a = (if s then - a else a)"

definition f64_const :: "real \<Rightarrow> float64" where
  "f64_const q = round64 (q < 0) \<bar>q\<bar>"

fun f64_add :: "float64 \<Rightarrow> float64 \<Rightarrow> float64" where
  "f64_add NaN y = NaN"
| "f64_add x NaN = NaN"
| "f64_add (Infinity s) (Infinity t) = (if s = t then Infinity s else NaN)"
| "f64_add (Infinity s) (Finite t b) = Infinity s"
| "f64_add (Finite s a) (Infinity t) = Infinity t"
| "f64_add (Finite s a) (Finite t b) =
     (let q = fval s a + fval t b
      in if q = 0 then Finite (s \<and> t) 0 else round64 (q < 0) \<bar>q\<bar>)"

fun f64_mul :: "float64 \<Rightarrow> float64 \<Rightarrow> float64" where
  "f64_mul NaN y = NaN"
| "f64_mul x NaN = NaN"
| "f64_mul (Infinity s) (Infinity t) = Infinity (s \<noteq> t)"
| "f64_mul (Infinity s) (Finite t b) = (if b = 0 then NaN else Infinity (s \<noteq> t))"
| "f64_mul (Finite s a) (Infinity t) = (if a = 0 then NaN else Infinity (s \<noteq> t))"
| "f64_mul (Finite s a) (Finite t b) = round64 (s \<noteq> t) (a * b)"

fun f64_div :: "float64 \<Rightarrow> float64 \<Rightarrow> float64" where
  "f64_div NaN y = NaN"
| "f64_div x NaN = NaN"
| "f64_div (Infinity s) (Infinity t) = NaN"
| "f64_div (Infinity s) (Finite t b) = Infinity (s \<noteq> t)"
| "f64_div (Finite s a) (Infinity t) = Finite (s \<noteq> t) 0"
| "f64_div (Finite s a) (Finite t b) =
     (if b = 0 then (if a = 0 then NaN else Infinity (s \<noteq> t))
      else round64 (s \<noteq> t) (a / b))"

fun f64_sqrt :: "float64 \<Rightarrow> float64" where
  "f64_sqrt NaN = NaN"
| "f64_sqrt (Infinity s) = (if s then NaN else Infinity False)"
| "f64_sqrt (Finite s a) =
     (if a = 0 then Finite s 0 else if s then NaN else Finite False (sqrt64 a))"

fun f64_less :: "float64 \<Rightarrow> float64 \<Rightarrow> bool" where
  "f64_less NaN y = False"
| "f64_less x NaN = False"
| "f64_less (Infinity s) (Infinity t) = (s \<and> \<not> t)"
| "f64_less (Infinity s) (Finite t b) = s"
| "f64_less (Finite s a) (Infinity t) = (\<not> t)"
| "f64_less (Finite s a) (Finite t b) = (fval s a < fval t b)"

text \<open>Go's \<^verbatim>\<open>==\<close> on \<^verbatim>\<open>float64\<close>: the two zeros are equal, and NaN equals nothing.\<close>

fun f64_eq :: "float64 \<Rightarrow> float64 \<Rightarrow> bool" where
  "f64_eq (Finite s a) (Finite t b) = (fval s a = fval t b)"
| "f64_eq (Infinity s) (Infinity t) = (s = t)"
| "f64_eq x y = False"

text \<open>
  The fused multiply-add \<open>x * y + z\<close> with a single rounding. The Go specification lets a
  compiler fuse a multiplication into the addition that uses it, and on some
  architectures it does; the integration scenario is evaluated both ways.
\<close>

fun f64_fma :: "float64 \<Rightarrow> float64 \<Rightarrow> float64 \<Rightarrow> float64" where
  "f64_fma NaN y z = NaN"
| "f64_fma x NaN z = NaN"
| "f64_fma x y NaN = NaN"
| "f64_fma (Infinity s) (Infinity t) z = f64_add (Infinity (s \<noteq> t)) z"
| "f64_fma (Infinity s) (Finite t b) z = (if b = 0 then NaN else f64_add (Infinity (s \<noteq> t)) z)"
| "f64_fma (Finite s a) (Infinity t) z = (if a = 0 then NaN else f64_add (Infinity (s \<noteq> t)) z)"
| "f64_fma (Finite s a) (Finite t b) (Infinity u) = Infinity u"
| "f64_fma (Finite s a) (Finite t b) (Finite u c) =
     (let q = fval (s \<noteq> t) (a * b) + fval u c
      in if q = 0 then Finite ((s \<noteq> t) \<and> u) 0 else round64 (q < 0) \<bar>q\<bar>)"

definition binary64 :: "float64 arith" where
  "binary64 = \<lparr>fconst = f64_const, fadd = f64_add, fmul = f64_mul, fdiv = f64_div,
                fsqrt = f64_sqrt, fless = f64_less\<rparr>"

text \<open>Division by a zero of either sign is what the guard of \<^verbatim>\<open>gravitationalAccel\<close> is there to prevent.\<close>

fun is_zero :: "float64 \<Rightarrow> bool" where
  "is_zero (Finite s a) = (a = 0)"
| "is_zero (Infinity s) = False"
| "is_zero NaN = False"

section \<open>Constants and data of \<^verbatim>\<open>server.go\<close>\<close>

definition G :: real where "G = 1 / 10000"
definition StarMass :: real where "StarMass = 1000000"
definition MinDistance :: real where "MinDistance = 10"
definition MaxDistance :: real where "MaxDistance = 100"
definition TimeStep :: real where "TimeStep = 16 / 1000"

record 'a Vector2 =
  X :: 'a
  Y :: 'a

record 'a Entity =
  ID :: string
  Position :: "'a Vector2"
  Velocity :: "'a Vector2"
  Connected :: bool

section \<open>Gravity\<close>

text \<open>
  \<^verbatim>\<open>gravitationalAccel\<close>, lines 67-78. \<open>clampedRadius\<close> is the local \<^verbatim>\<open>r\<close> after the guard of
  line 69; \<^verbatim>\<open>-G * StarMass\<close> is a constant expression, evaluated exactly before it is
  converted.
\<close>

definition clampedRadius :: "'a arith \<Rightarrow> 'a Vector2 \<Rightarrow> 'a" where
  "clampedRadius A pos =
     (let r = fsqrt A (fadd A (fmul A (X pos) (X pos)) (fmul A (Y pos) (Y pos)))
      in if fless A r (fconst A (1 / 10)) then fconst A (1 / 10) else r)"

definition gravitationalAccel :: "'a arith \<Rightarrow> 'a Vector2 \<Rightarrow> 'a Vector2" where
  "gravitationalAccel A pos =
     (let r = clampedRadius A pos;
          force = fdiv A (fconst A (- G * StarMass)) (fmul A r r);
          unitX = fdiv A (X pos) r;
          unitY = fdiv A (Y pos) r
      in \<lparr>X = fmul A force unitX, Y = fmul A force unitY\<rparr>)"

text \<open>Euclidean length of a vector, for stating the physics.\<close>

definition magnitude :: "real Vector2 \<Rightarrow> real" where
  "magnitude p = sqrt (X p * X p + Y p * Y p)"

definition scale :: "real \<Rightarrow> real Vector2 \<Rightarrow> real Vector2" where
  "scale k p = \<lparr>X = k * X p, Y = k * Y p\<rparr>"

section \<open>Registration\<close>

text \<open>
  A connection (\<^verbatim>\<open>*websocket.Conn\<close>) is an opaque handle. The global map \<^verbatim>\<open>clients\<close> is an
  association list: \<open>AList.update\<close> is Go's \<^verbatim>\<open>clients[conn] = entity\<close> (overwrite the entry of a
  present key, add an absent one), \<open>AList.delete\<close> is \<^verbatim>\<open>delete(clients, conn)\<close>, and the order
  of the list stands for the unspecified order in which \<^verbatim>\<open>range\<close> visits the map.
\<close>

type_synonym conn = nat
type_synonym 'a registry = "(conn \<times> 'a Entity) list"
type_synonym payload = string

text \<open>\<^verbatim>\<open>fmt.Sprintf("%d", n)\<close>: the decimal numeral of an integer.\<close>

fun decimal :: "nat \<Rightarrow> string" where
  "decimal n =
     (if n < 10 then [''0123456789'' ! n]
      else decimal (n div 10) @ [''0123456789'' ! (n mod 10)])"

definition Sprintf_d :: "int \<Rightarrow> string" where
  "Sprintf_d i = (if i < 0 then CHR ''-'' # decimal (nat (- i)) else decimal (nat i))"

text \<open>
  \<^verbatim>\<open>randomPosition\<close>, lines 57-64. The two results of \<^verbatim>\<open>rand.Float64()\<close>, each in \<open>[0, 1)\<close>,
  are the inputs \<open>u1\<close> and \<open>u2\<close>.
\<close>

definition randomPosition :: "'a arith \<Rightarrow> 'a mathlib \<Rightarrow> 'a \<Rightarrow> 'a \<Rightarrow> 'a Vector2" where
  "randomPosition A M u1 u2 =
     (let theta = fmul A (fmul A u1 (fconst A 2)) (Pi M);
          r = fadd A (fconst A MinDistance) (fmul A u2 (fconst A (MaxDistance - MinDistance)));
          x = fmul A r (Cos M theta);
          y = fmul A r (Sin M theta)
      in \<lparr>X = x, Y = y\<rparr>)"

text \<open>
  \<^verbatim>\<open>wsHandler\<close>, lines 88-110. \<open>now\<close> is the reading \<^verbatim>\<open>time.Now().UnixNano()\<close>. The handler
  builds its entity outside the lock (\<open>newEntity\<close>), stores it under the lock (\<open>register\<close>)
  and, when its read loop ends, runs the deferred block (\<open>unregister\<close>) with the copy of
  the entity it has kept since registration.
\<close>

definition newEntity :: "'a arith \<Rightarrow> 'a mathlib \<Rightarrow> int \<Rightarrow> 'a \<Rightarrow> 'a \<Rightarrow> 'a Entity" where
  "newEntity A M now u1 u2 =
     \<lparr>ID = Sprintf_d now,
      Position = randomPosition A M u1 u2,
      Velocity = \<lparr>X = fconst A 0, Y = fconst A 0\<rparr>,
      Connected = True\<rparr>"

definition register :: "conn \<Rightarrow> 'a Entity \<Rightarrow> 'a registry \<Rightarrow> 'a registry" where
  "register c entity clients = AList.update c entity clients"

definition unregister :: "conn \<Rightarrow> 'a Entity \<Rightarrow> 'a registry \<Rightarrow> 'a registry" where
  "unregister c entity clients =
     AList.delete c (AList.update c (entity\<lparr>Connected := False\<rparr>) clients)"

section \<open>The tick\<close>

text \<open>The body of the physics loop, lines 136-142, for one connected entity.\<close>

definition updatePhysics :: "'a arith \<Rightarrow> 'a Entity \<Rightarrow> 'a Entity" where
  "updatePhysics A entity =
     (let accel = gravitationalAccel A (Position entity);
          vx = fadd A (X (Velocity entity)) (fmul A (X accel) (fconst A TimeStep));
          vy = fadd A (Y (Velocity entity)) (fmul A (Y accel) (fconst A TimeStep));
          px = fadd A (X (Position entity)) (fmul A vx (fconst A TimeStep));
          py = fadd A (Y (Position entity)) (fmul A vy (fconst A TimeStep))
      in entity\<lparr>Velocity := \<lparr>X = vx, Y = vy\<rparr>, Position := \<lparr>X = px, Y = py\<rparr>\<rparr>)"

text \<open>
  The loop of lines 131-145 over the keys of the map. Each iteration reads the entry of
  its key from the map as it is then and writes the updated entity back.
\<close>

fun physicsLoop :: "'a arith \<Rightarrow> conn list \<Rightarrow> 'a registry \<Rightarrow> 'a registry" where
  "physicsLoop A [] clients = clients"
| "physicsLoop A (c # rest) clients =
     (case map_of clients c of
        None \<Rightarrow> physicsLoop A rest clients
      | Some entity \<Rightarrow>
          if \<not> Connected entity then physicsLoop A rest clients
          else physicsLoop A rest (AList.update c (updatePhysics A entity) clients))"

text \<open>The snapshot of lines 148-151: every entity of the map, connected or not.\<close>

definition snapshot :: "'a registry \<Rightarrow> 'a Entity list" where
  "snapshot clients = map snd clients"

text \<open>
  What the tick cannot decide itself comes from outside: whether \<^verbatim>\<open>json.Marshal\<close> returns
  the bytes or an error, and whether \<^verbatim>\<open>conn.WriteMessage\<close> returns \<^verbatim>\<open>nil\<close> (\<open>True\<close>) or an
  error. A write is modelled as returning; a write that blocks is outside the model.
\<close>

record 'a tick_env =
  Marshal :: "'a Entity list \<Rightarrow> payload option"
  WriteMessage :: "conn \<Rightarrow> payload \<Rightarrow> bool"

text \<open>
  The fan-out loop of lines 161-170. It returns the map and the list of the calls of
  \<^verbatim>\<open>WriteMessage\<close> it made, in order.
\<close>

fun broadcastLoop ::
  "(conn \<Rightarrow> payload \<Rightarrow> bool) \<Rightarrow> payload \<Rightarrow> conn list \<Rightarrow> 'a registry
     \<Rightarrow> 'a registry \<times> (conn \<times> payload) list" where
  "broadcastLoop w data [] clients = (clients, [])"
| "broadcastLoop w data (c # rest) clients =
     (case map_of clients c of
        None \<Rightarrow> broadcastLoop w data rest clients
      | Some entity \<Rightarrow>
          if \<not> Connected entity then broadcastLoop w data rest clients
          else if w c data then
            (let (clients', writes) = broadcastLoop w data rest clients
             in (clients', (c, data) # writes))
          else
            (let (clients', writes) =
               broadcastLoop w data rest (AList.update c (entity\<lparr>Connected := False\<rparr>) clients)
             in (clients', (c, data) # writes)))"

text \<open>One iteration of \<^verbatim>\<open>for range ticker.C\<close>, lines 128-171.\<close>

definition tick :: "'a arith \<Rightarrow> 'a tick_env \<Rightarrow> 'a registry \<Rightarrow> 'a registry \<times> (conn \<times> payload) list" where
  "tick A env clients =
     (let clients = physicsLoop A (map fst clients) clients;
          entities = snapshot clients
      in case Marshal env entities of
           None \<Rightarrow> (clients, [])
         | Some data \<Rightarrow> broadcastLoop (WriteMessage env) data (map fst clients) clients)"

text \<open>
  Every access to \<^verbatim>\<open>clients\<close> is made under \<^verbatim>\<open>clientsMu\<close>, so an execution of the server,
  whatever runs concurrently, is a sequence of these critical sections.
\<close>

datatype 'a event =
  Register conn int 'a 'a
| Unregister conn "'a Entity"
| Tick "'a tick_env"

fun apply_event :: "'a arith \<Rightarrow> 'a mathlib \<Rightarrow> 'a event \<Rightarrow> 'a registry \<Rightarrow> 'a registry" where
  "apply_event A M (Register c now u1 u2) clients = register c (newEntity A M now u1 u2) clients"
| "apply_event A M (Unregister c entity) clients = unregister c entity clients"
| "apply_event A M (Tick env) clients = fst (tick A env clients)"

fun run :: "'a arith \<Rightarrow> 'a mathlib \<Rightarrow> 'a event list \<Rightarrow> 'a registry \<Rightarrow> 'a registry" where
  "run A M [] clients = clients"
| "run A M (ev # evs) clients = run A M evs (apply_event A M ev clients)"

text \<open>The events that remove a handle, and the clock readings a trace takes.\<close>

fun is_unregister :: "conn \<Rightarrow> 'a event \<Rightarrow> bool" where
  "is_unregister c (Unregister c' entity) = (c' = c)"
| "is_unregister c (Register c' now u1 u2) = False"
| "is_unregister c (Tick env) = False"


section \<open>The acceleration law over the reals\<close>

lemma clampedRadius_exact: "clampedRadius exact p = max (magnitude p) (1 / 10)"
  by (simp add: clampedRadius_def exact_def magnitude_def Let_def max_def)

lemma accel_exact:
  "gravitationalAccel exact p =
     scale (- 100 / (max (magnitude p) (1 / 10))\<^sup>2) (scale (1 / max (magnitude p) (1 / 10)) p)"
  by (simp add: gravitationalAccel_def clampedRadius_exact Let_def scale_def G_def StarMass_def
      power2_eq_square)
    (simp add: exact_def)


lemma magnitude_nonneg: "0 \<le> magnitude p"
  by (simp add: magnitude_def)

lemma magnitude_axis: "magnitude \<lparr>X = a, Y = 0\<rparr> = \<bar>a\<bar>"
  by (simp add: magnitude_def)








section \<open>The loops of the tick\<close>

lemma update_present_keys:
  "map_of al k = Some v \<Longrightarrow> map fst (AList.update k v' al) = map fst al"
  by (simp add: update_keys) (metis map_of_eq_None_iff option.distinct(1) image_set)

lemma physicsLoop_keys: "map fst (physicsLoop A ks clients) = map fst clients"
  by (induction ks arbitrary: clients) (auto simp: update_present_keys split: option.splits)

lemma physicsLoop_lookup:
  "distinct ks \<Longrightarrow>
   map_of (physicsLoop A ks clients) c =
     (if c \<in> set ks
      then map_option (\<lambda>e. if Connected e then updatePhysics A e else e) (map_of clients c)
      else map_of clients c)"
proof (induction ks arbitrary: clients)
  case Nil
  then show ?case by simp
next
  case (Cons k ks)
  then show ?case
    by (auto simp: update_conv' split: option.splits)
qed

lemma broadcastLoop_keys: "map fst (fst (broadcastLoop w d ks clients)) = map fst clients"
  by (induction ks arbitrary: clients)
    (auto simp: update_present_keys split_beta split: option.splits)

lemma broadcastLoop_lookup:
  "distinct ks \<Longrightarrow>
   map_of (fst (broadcastLoop w d ks clients)) c =
     (if c \<in> set ks
      then map_option (\<lambda>e. if Connected e \<and> \<not> w c d then e\<lparr>Connected := False\<rparr> else e)
             (map_of clients c)
      else map_of clients c)"
proof (induction ks arbitrary: clients)
  case Nil
  then show ?case by simp
next
  case (Cons k ks)
  then show ?case
    by (auto simp: update_conv' split_beta split: option.splits)
qed

lemma broadcastLoop_writes:
  "distinct ks \<Longrightarrow>
   snd (broadcastLoop w d ks clients) =
     map (\<lambda>c. (c, d)) (filter (\<lambda>c. \<exists>e. map_of clients c = Some e \<and> Connected e) ks)"
proof (induction ks arbitrary: clients)
  case Nil
  then show ?case by simp
next
  case (Cons k ks)
  have *: "filter (\<lambda>c. \<exists>e. map_of (AList.update k v clients) c = Some e \<and> Connected e) ks
         = filter (\<lambda>c. \<exists>e. map_of clients c = Some e \<and> Connected e) ks" for v
    using Cons.prems by (intro filter_cong) (auto simp: update_conv')
  from Cons show ?case
    by (auto simp: * split_beta split: option.splits)
qed

lemma updatePhysics_Connected [simp]: "Connected (updatePhysics A e) = Connected e"
  by (simp add: updatePhysics_def Let_def)

lemma updatePhysics_ID [simp]: "ID (updatePhysics A e) = ID e"
  by (simp add: updatePhysics_def Let_def)

lemma updatePhysics_Velocity:
  "Velocity (updatePhysics A e) =
     \<lparr>X = fadd A (X (Velocity e)) (fmul A (X (gravitationalAccel A (Position e))) (fconst A TimeStep)),
      Y = fadd A (Y (Velocity e)) (fmul A (Y (gravitationalAccel A (Position e))) (fconst A TimeStep))\<rparr>"
  by (simp add: updatePhysics_def Let_def)

lemma updatePhysics_Position:
  "Position (updatePhysics A e) =
     \<lparr>X = fadd A (X (Position e)) (fmul A (X (Velocity (updatePhysics A e))) (fconst A TimeStep)),
      Y = fadd A (Y (Position e)) (fmul A (Y (Velocity (updatePhysics A e))) (fconst A TimeStep))\<rparr>"
  by (simp add: updatePhysics_def Let_def)

lemma lookup_absent: "c \<notin> set (map fst al) \<Longrightarrow> map_of al c = None"
  by (simp add: map_of_eq_None_iff)

lemma physics_lookup:
  "distinct (map fst clients) \<Longrightarrow>
   map_of (physicsLoop A (map fst clients) clients) c =
     map_option (\<lambda>e. if Connected e then updatePhysics A e else e) (map_of clients c)"
  by (cases "c \<in> set (map fst clients)")
    (simp_all add: physicsLoop_lookup lookup_absent del: map_of_eq_Some_iff)

lemma physics_connected:
  "distinct (map fst clients) \<Longrightarrow>
   (\<exists>e. map_of (physicsLoop A (map fst clients) clients) c = Some e \<and> Connected e)
     = (\<exists>e. map_of clients c = Some e \<and> Connected e)"
  by (cases "map_of clients c") (auto simp: physics_lookup)

lemma tick_keys: "map fst (fst (tick A env clients)) = map fst clients"
  by (simp add: tick_def Let_def broadcastLoop_keys physicsLoop_keys split: option.splits)

lemma tick_failed:
  "Marshal env (snapshot (physicsLoop A (map fst clients) clients)) = None \<Longrightarrow>
   tick A env clients = (physicsLoop A (map fst clients) clients, [])"
  by (simp add: tick_def Let_def)

lemma tick_lookup:
  assumes "distinct (map fst clients)"
    and "Marshal env (snapshot (physicsLoop A (map fst clients) clients)) = Some data"
  shows "map_of (fst (tick A env clients)) c =
     map_option (\<lambda>e. if Connected e
                     then (if WriteMessage env c data then updatePhysics A e
                           else (updatePhysics A e)\<lparr>Connected := False\<rparr>)
                     else e) (map_of clients c)"
proof (cases "c \<in> set (map fst clients)")
  case True
  have "map_of (fst (tick A env clients)) c =
        map_option (\<lambda>e. if Connected e \<and> \<not> WriteMessage env c data
                         then e\<lparr>Connected := False\<rparr> else e)
          (map_of (physicsLoop A (map fst clients) clients) c)"
    using assms True
    by (simp add: tick_def Let_def broadcastLoop_lookup physicsLoop_keys del: map_of_eq_Some_iff)
  then show ?thesis
    using assms(1) by (cases "map_of clients c") (auto simp: physics_lookup)
next
  case False
  then have 1: "map_of clients c = None"
    by (rule lookup_absent)
  from False have "c \<notin> set (map fst (fst (tick A env clients)))"
    by (simp add: tick_keys)
  then have "map_of (fst (tick A env clients)) c = None"
    by (rule lookup_absent)
  with 1 show ?thesis by simp
qed

lemma tick_writes:
  assumes "distinct (map fst clients)"
    and "Marshal env (snapshot (physicsLoop A (map fst clients) clients)) = Some data"
  shows "snd (tick A env clients) =
     map (\<lambda>c. (c, data)) (filter (\<lambda>c. \<exists>e. map_of clients c = Some e \<and> Connected e) (map fst clients))"
proof -
  have "(\<lambda>c. \<exists>e. map_of (physicsLoop A (map fst clients) clients) c = Some e \<and> Connected e)
      = (\<lambda>c. \<exists>e. map_of clients c = Some e \<and> Connected e)"
    using physics_connected [OF assms(1)] by (intro ext)
  then show ?thesis
    using assms
    by (simp add: tick_def Let_def broadcastLoop_writes physicsLoop_keys del: map_of_eq_Some_iff)
qed

lemma tick_kinematics:
  assumes "distinct (map fst clients)" and "map_of clients c = Some e"
  shows "\<exists>e'. map_of (fst (tick A env clients)) c = Some e'
           \<and> ID e' = ID e
           \<and> Velocity e' = Velocity (if Connected e then updatePhysics A e else e)
           \<and> Position e' = Position (if Connected e then updatePhysics A e else e)"
proof (cases "Marshal env (snapshot (physicsLoop A (map fst clients) clients))")
  case None
  then show ?thesis
    using assms by (simp add: tick_failed physics_lookup)
next
  case (Some data)
  then show ?thesis
    using assms by (simp add: tick_lookup)
qed

section \<open>Evaluating binary64\<close>

lemmas f64_eval = f64_const_def round64_def ilog2_def rne_def sqrt64_def fval_def Let_def
  compute_bitlen power_int_minus

lemma binary64_sel [simp]:
  "fconst binary64 = f64_const" "fadd binary64 = f64_add" "fmul binary64 = f64_mul"
  "fdiv binary64 = f64_div" "fsqrt binary64 = f64_sqrt" "fless binary64 = f64_less"
  by (simp_all add: binary64_def)

lemma exact_sel [simp]:
  "fconst exact = (\<lambda>x. x)" "fadd exact = (+)" "fmul exact = (*)"
  "fdiv exact = (/)" "fsqrt exact = sqrt" "fless exact = (<)"
  by (simp_all add: exact_def)

lemma f64_const_0: "f64_const 0 = Finite False 0"
  by (simp add: f64_const_def round64_def)

lemma f64_const_10: "f64_const 10 = Finite False 10"
  by (simp add: f64_eval)

lemma f64_const_tenth: "f64_const (1 / 10) = Finite False (3602879701896397 / 36028797018963968)"
  by (simp add: f64_eval)

lemma f64_const_force: "f64_const (- G * StarMass) = Finite True 100"
  by (simp add: G_def StarMass_def) (simp add: f64_eval)

lemma f64_const_TimeStep:
  "f64_const TimeStep = Finite False (1152921504606847 / 72057594037927936)"
  by (simp add: TimeStep_def) (simp add: f64_eval)

lemma clampedRadius64_scenario:
  "clampedRadius binary64 \<lparr>X = Finite False 10, Y = Finite False 0\<rparr> = Finite False 10"
  by (simp add: clampedRadius_def f64_const_tenth) (simp add: f64_eval isqrt.simps)

lemma accel64_scenario:
  "gravitationalAccel binary64 \<lparr>X = Finite False 10, Y = Finite False 0\<rparr>
     = \<lparr>X = Finite True 1, Y = Finite True 0\<rparr>"
  using clampedRadius64_scenario
  by (simp add: gravitationalAccel_def G_def StarMass_def f64_eval)

lemma velocity64_scenario:
  "f64_add (Finite False 0) (f64_mul (Finite True 1) (f64_const TimeStep))
     = Finite True (1152921504606847 / 72057594037927936)"
  "f64_add (Finite False 0) (f64_mul (Finite True 0) (f64_const TimeStep)) = Finite False 0"
  by (simp_all add: f64_const_TimeStep) (simp_all add: f64_eval)

lemma position64_scenario:
  "f64_add (Finite False 10)
     (f64_mul (Finite True (1152921504606847 / 72057594037927936)) (f64_const TimeStep))
     = Finite False (1407338854756261 / 140737488355328)"
  "f64_add (Finite False 0) (f64_mul (Finite False 0) (f64_const TimeStep)) = Finite False 0"
  by (simp_all add: f64_const_TimeStep) (simp_all add: f64_eval)

lemma f64_const_minus_one: "f64_const (- 1) = Finite True 1"
  by (simp add: f64_eval)

lemma f64_const_minus_dt:
  "f64_const (- (16 / 1000)) = Finite True (1152921504606847 / 72057594037927936)"
  by (simp add: f64_eval)

lemma f64_const_position:
  "f64_const (9999744 / 1000000) = Finite False (1407338854756261 / 140737488355328)"
  by (simp add: f64_eval)

lemma updatePhysics64_scenario:
  assumes "Position e = \<lparr>X = f64_const 10, Y = f64_const 0\<rparr>"
    and "Velocity e = \<lparr>X = f64_const 0, Y = f64_const 0\<rparr>"
  shows "Velocity (updatePhysics binary64 e) = \<lparr>X = f64_const (- (16 / 1000)), Y = f64_const 0\<rparr>
       \<and> Position (updatePhysics binary64 e) = \<lparr>X = f64_const (9999744 / 1000000), Y = f64_const 0\<rparr>"
proof -
  have v: "Velocity (updatePhysics binary64 e)
             = \<lparr>X = Finite True (1152921504606847 / 72057594037927936), Y = Finite False 0\<rparr>"
    by (simp add: updatePhysics_Velocity assms f64_const_0 f64_const_10 accel64_scenario
        velocity64_scenario)
  have p: "Position (updatePhysics binary64 e)
             = \<lparr>X = Finite False (1407338854756261 / 140737488355328), Y = Finite False 0\<rparr>"
    unfolding updatePhysics_Position v
    by (simp add: assms f64_const_0 f64_const_10 position64_scenario)
  show ?thesis
    unfolding v p f64_const_minus_dt f64_const_position f64_const_0 by simp
qed

lemma updatePhysics_exact_scenario:
  assumes "Position e = \<lparr>X = 10, Y = 0\<rparr>" and "Velocity e = \<lparr>X = 0, Y = 0\<rparr>"
  shows "gravitationalAccel exact (Position e) = \<lparr>X = - 1, Y = 0\<rparr>
       \<and> Velocity (updatePhysics exact e) = \<lparr>X = - (16 / 1000), Y = 0\<rparr>
       \<and> Position (updatePhysics exact e) = \<lparr>X = 9999744 / 1000000, Y = 0\<rparr>"
proof -
  have a: "gravitationalAccel exact (Position e) = \<lparr>X = - 1, Y = 0\<rparr>"
    by (simp add: assms accel_exact magnitude_axis scale_def)
  have v: "Velocity (updatePhysics exact e) = \<lparr>X = - (16 / 1000), Y = 0\<rparr>"
    by (simp add: updatePhysics_def Let_def a assms(2) TimeStep_def)
  have p: "Position (updatePhysics exact e) = \<lparr>X = 9999744 / 1000000, Y = 0\<rparr>"
    by (simp add: updatePhysics_def Let_def a assms(2) TimeStep_def) (simp add: assms(1))
  from a v p show ?thesis by blast
qed

lemma fused64_scenario:
  "f64_fma (f64_const 10) (f64_const 10) (f64_mul (f64_const 0) (f64_const 0)) = f64_const 100
   \<and> f64_fma (Finite True 1) (f64_const TimeStep) (f64_const 0) = f64_const (- (16 / 1000))
   \<and> f64_fma (Finite True 0) (f64_const TimeStep) (f64_const 0) = f64_const 0
   \<and> f64_fma (f64_const (- (16 / 1000))) (f64_const TimeStep) (f64_const 10)
       = f64_const (9999744 / 1000000)
   \<and> f64_fma (f64_const 0) (f64_const TimeStep) (f64_const 0) = f64_const 0"
  by (simp add: f64_const_TimeStep) (simp add: f64_eval)

section \<open>One tick of physics\<close>

lemma tick_connected:
  assumes "distinct (map fst clients)" and "map_of clients c = Some e" and "Connected e"
  shows "\<exists>e'. map_of (fst (tick A env clients)) c = Some e'
           \<and> Velocity e' = Velocity (updatePhysics A e)
           \<and> Position e' = Position (updatePhysics A e)"
  using tick_kinematics [OF assms(1,2), of A env] assms(3) by auto

text \<open>
  C3. A tick gives every connected entity of the map the semi-implicit Euler step: the new
  velocity is the old one plus the acceleration at the current position times \<open>TimeStep\<close>,
  and the new position is the old one plus the new velocity times \<open>TimeStep\<close>, in every
  arithmetic. From position \<open>(10, 0)\<close> and velocity \<open>(0, 0)\<close>, one tick in binary64 computes the
  acceleration \<open>(-1, -0)\<close>, whose second component is the negative zero (equal to \<open>0\<close> under
  \<^verbatim>\<open>==\<close>), and leaves the
  velocity \<open>(-0.016, 0)\<close> and the position \<open>(9.999744, 0)\<close>, each the double nearest to the
  decimal; in exact arithmetic the three are \<open>(-1, 0)\<close>, \<open>(-0.016, 0)\<close> and \<open>(9.999744, 0)\<close>.
  The doubles are the same where the compiler fuses the multiplications of lines 68 and
  138-142 into the additions.
\<close>

theorem integration_order:
  assumes "distinct (map fst clients)" and "map_of clients c = Some e" and "Connected e"
  shows "(\<exists>e'. map_of (fst (tick A env clients)) c = Some e'
            \<and> Velocity e' =
                \<lparr>X = fadd A (X (Velocity e))
                       (fmul A (X (gravitationalAccel A (Position e))) (fconst A TimeStep)),
                 Y = fadd A (Y (Velocity e))
                       (fmul A (Y (gravitationalAccel A (Position e))) (fconst A TimeStep))\<rparr>
            \<and> Position e' =
                \<lparr>X = fadd A (X (Position e)) (fmul A (X (Velocity e')) (fconst A TimeStep)),
                 Y = fadd A (Y (Position e)) (fmul A (Y (Velocity e')) (fconst A TimeStep))\<rparr>)
       \<and> gravitationalAccel binary64 \<lparr>X = f64_const 10, Y = f64_const 0\<rparr>
            = \<lparr>X = f64_const (- 1), Y = Finite True 0\<rparr>
       \<and> f64_eq (Finite True 0) (f64_const 0)
       \<and> (\<exists>e'. map_of (fst (tick binary64 env64
                   [(c, \<lparr>ID = i, Position = \<lparr>X = f64_const 10, Y = f64_const 0\<rparr>,
                         Velocity = \<lparr>X = f64_const 0, Y = f64_const 0\<rparr>, Connected = True\<rparr>)])) c
                 = Some e'
            \<and> Velocity e' = \<lparr>X = f64_const (- (16 / 1000)), Y = f64_const 0\<rparr>
            \<and> Position e' = \<lparr>X = f64_const (9999744 / 1000000), Y = f64_const 0\<rparr>)
       \<and> gravitationalAccel exact \<lparr>X = 10, Y = 0\<rparr> = \<lparr>X = - 1, Y = 0\<rparr>
       \<and> (\<exists>e'. map_of (fst (tick exact envx
                   [(c, \<lparr>ID = i, Position = \<lparr>X = 10, Y = 0\<rparr>,
                         Velocity = \<lparr>X = 0, Y = 0\<rparr>, Connected = True\<rparr>)])) c
                 = Some e'
            \<and> Velocity e' = \<lparr>X = - (16 / 1000), Y = 0\<rparr>
            \<and> Position e' = \<lparr>X = 9999744 / 1000000, Y = 0\<rparr>)
       \<and> f64_fma (f64_const 10) (f64_const 10) (f64_mul (f64_const 0) (f64_const 0)) = f64_const 100
       \<and> f64_fma (Finite True 1) (f64_const TimeStep) (f64_const 0) = f64_const (- (16 / 1000))
       \<and> f64_fma (Finite True 0) (f64_const TimeStep) (f64_const 0) = f64_const 0
       \<and> f64_fma (f64_const (- (16 / 1000))) (f64_const TimeStep) (f64_const 10)
           = f64_const (9999744 / 1000000)
       \<and> f64_fma (f64_const 0) (f64_const TimeStep) (f64_const 0) = f64_const 0"
proof -
  obtain e' where e': "map_of (fst (tick A env clients)) c = Some e'"
      "Velocity e' = Velocity (updatePhysics A e)" "Position e' = Position (updatePhysics A e)"
    using tick_connected [OF assms] by blast
  have 1: "\<exists>e'. map_of (fst (tick A env clients)) c = Some e'
            \<and> Velocity e' =
                \<lparr>X = fadd A (X (Velocity e))
                       (fmul A (X (gravitationalAccel A (Position e))) (fconst A TimeStep)),
                 Y = fadd A (Y (Velocity e))
                       (fmul A (Y (gravitationalAccel A (Position e))) (fconst A TimeStep))\<rparr>
            \<and> Position e' =
                \<lparr>X = fadd A (X (Position e)) (fmul A (X (Velocity e')) (fconst A TimeStep)),
                 Y = fadd A (Y (Position e)) (fmul A (Y (Velocity e')) (fconst A TimeStep))\<rparr>"
    using e' updatePhysics_Velocity [of A e] updatePhysics_Position [of A e] by simp
  have 2: "gravitationalAccel binary64 \<lparr>X = f64_const 10, Y = f64_const 0\<rparr>
            = \<lparr>X = f64_const (- 1), Y = Finite True 0\<rparr>"
    by (simp add: f64_const_10 f64_const_0 f64_const_minus_one accel64_scenario)
  let ?e64 = "\<lparr>ID = i, Position = \<lparr>X = f64_const 10, Y = f64_const 0\<rparr>,
                Velocity = \<lparr>X = f64_const 0, Y = f64_const 0\<rparr>, Connected = True\<rparr>"
  have 3: "\<exists>e'. map_of (fst (tick binary64 env64 [(c, ?e64)])) c = Some e'
            \<and> Velocity e' = \<lparr>X = f64_const (- (16 / 1000)), Y = f64_const 0\<rparr>
            \<and> Position e' = \<lparr>X = f64_const (9999744 / 1000000), Y = f64_const 0\<rparr>"
    using tick_connected [of "[(c, ?e64)]" c ?e64 binary64 env64]
      updatePhysics64_scenario [of ?e64]
    by simp
  let ?ex = "\<lparr>ID = i, Position = \<lparr>X = 10, Y = 0\<rparr>,
               Velocity = \<lparr>X = 0, Y = 0\<rparr>, Connected = True\<rparr> :: real Entity"
  have 4: "gravitationalAccel exact \<lparr>X = 10, Y = 0\<rparr> = \<lparr>X = - 1, Y = 0\<rparr>"
    using updatePhysics_exact_scenario [of ?ex] by simp
  have 5: "\<exists>e'. map_of (fst (tick exact envx [(c, ?ex)])) c = Some e'
            \<and> Velocity e' = \<lparr>X = - (16 / 1000), Y = 0\<rparr>
            \<and> Position e' = \<lparr>X = 9999744 / 1000000, Y = 0\<rparr>"
    using tick_connected [of "[(c, ?ex)]" c ?ex exact envx]
      updatePhysics_exact_scenario [of ?ex]
    by simp
  have 6: "f64_eq (Finite True 0) (f64_const 0)"
    by (simp add: f64_const_0 fval_def)
  from 1 2 3 4 5 6 fused64_scenario show ?thesis by blast
qed

theorem integration_order_witness:
  "distinct (map fst [(7 :: conn, \<lparr>ID = ''7'', Position = \<lparr>X = 10, Y = 0\<rparr>,
                        Velocity = \<lparr>X = 0, Y = 0\<rparr>, Connected = True\<rparr>)])
   \<and> (\<exists>e'. map_of (fst (tick exact \<lparr>Marshal = (\<lambda>es. Some ''{}''), WriteMessage = (\<lambda>c d. True)\<rparr>
               [(7, \<lparr>ID = ''7'', Position = \<lparr>X = 10, Y = 0\<rparr>,
                     Velocity = \<lparr>X = 0, Y = 0\<rparr>, Connected = True\<rparr>)])) 7 = Some e'
          \<and> Velocity e' = \<lparr>X = - (2 / 125), Y = 0\<rparr>
          \<and> Position e' = \<lparr>X = 9.999744, Y = 0\<rparr>)"
  using integration_order [of "[(7, \<lparr>ID = ''7'', Position = \<lparr>X = 10, Y = 0\<rparr>,
                        Velocity = \<lparr>X = 0, Y = 0\<rparr>, Connected = True\<rparr>)]" 7
      "\<lparr>ID = ''7'', Position = \<lparr>X = 10, Y = 0\<rparr>, Velocity = \<lparr>X = 0, Y = 0\<rparr>, Connected = True\<rparr>"
      exact "\<lparr>Marshal = (\<lambda>es. Some ''{}''), WriteMessage = (\<lambda>c d. True)\<rparr>"]
  by (simp add: accel_exact magnitude_axis scale_def TimeStep_def)

section \<open>Failures during a tick\<close>

lemma register_keys: "c \<in> set (map fst clients) \<Longrightarrow> c \<in> set (map fst (register k v clients))"
  by (simp add: register_def update_keys)

lemma unregister_eq: "unregister c entity clients = AList.delete c clients"
  by (simp add: unregister_def delete_update_same)

lemma unregister_keys: "map fst (unregister c entity clients) = removeAll c (map fst clients)"
  by (simp add: unregister_eq delete_keys)

lemma apply_event_keeps:
  "\<not> is_unregister c ev \<Longrightarrow> c \<in> set (map fst clients)
     \<Longrightarrow> c \<in> set (map fst (apply_event A M ev clients))"
proof (cases ev)
  case (Register k now u1 u2)
  assume "c \<in> set (map fst clients)"
  then show ?thesis
    unfolding Register apply_event.simps by (rule register_keys)
next
  case (Unregister k entity)
  assume "\<not> is_unregister c ev" and "c \<in> set (map fst clients)"
  then show ?thesis
    by (simp add: Unregister unregister_keys)
next
  case (Tick env)
  assume "c \<in> set (map fst clients)"
  then show ?thesis
    by (simp add: Tick tick_keys)
qed

lemma run_keeps:
  "\<forall>ev \<in> set evs. \<not> is_unregister c ev \<Longrightarrow> c \<in> set (map fst clients)
     \<Longrightarrow> c \<in> set (map fst (run A M evs clients))"
proof (induction evs arbitrary: clients)
  case Nil
  then show ?case by simp
next
  case (Cons ev evs)
  from Cons.prems have "\<not> is_unregister c ev"
    by simp
  then have "c \<in> set (map fst (apply_event A M ev clients))"
    using Cons.prems(2) by (rule apply_event_keeps)
  moreover from Cons.prems have "\<forall>ev \<in> set evs. \<not> is_unregister c ev"
    by simp
  ultimately have "c \<in> set (map fst (run A M evs (apply_event A M ev clients)))"
    using Cons.IH by blast
  then show ?case by simp
qed

lemma lookup_member: "map_of al c = Some v \<Longrightarrow> c \<in> set (map fst al)"
  by (metis lookup_absent option.distinct(1))

lemma lookup_snapshot: "map_of al c = Some v \<Longrightarrow> v \<in> set (snapshot al)"
  by (auto simp: snapshot_def dest: map_of_SomeD intro: rev_image_eqI)

lemma tick_writes_member:
  assumes "distinct (map fst clients)"
    and "Marshal env (snapshot (physicsLoop A (map fst clients) clients)) = Some data"
    and "map_of clients c = Some e" and "Connected e"
  shows "(c, data) \<in> set (snd (tick A env clients))"
proof -
  from assms(3) have "c \<in> set (map fst clients)"
    by (rule lookup_member)
  with assms(3,4) show ?thesis
    unfolding tick_writes [OF assms(1,2)] by auto
qed

text \<open>
  C4. When the write to a connected session \<open>c\<close> fails during a tick, the map still holds
  an entity for \<open>c\<close> after the tick, the same one by identifier and now with
  \<open>Connected = False\<close>, and it is in the snapshot that the next tick takes; every other
  connected session was written to in the same tick. Whatever happens afterwards, \<open>c\<close>
  stays a key of the map as long as the deferred block of its own handler has not run,
  and it is no longer a key once that block has run.
\<close>

theorem ghost_window:
  assumes "distinct (map fst clients)"
    and "Marshal env (snapshot (physicsLoop A (map fst clients) clients)) = Some data"
    and "map_of clients c = Some e" and "Connected e"
    and "\<not> WriteMessage env c data"
  shows "(\<exists>g. map_of (fst (tick A env clients)) c = Some g \<and> \<not> Connected g \<and> ID g = ID e
            \<and> g \<in> set (snapshot (physicsLoop A (map fst (fst (tick A env clients)))
                                   (fst (tick A env clients)))))
       \<and> map fst (fst (tick A env clients)) = map fst clients
       \<and> (\<forall>c' e'. c' \<noteq> c \<and> map_of clients c' = Some e' \<and> Connected e'
             \<longrightarrow> (c', data) \<in> set (snd (tick A env clients)))
       \<and> (\<forall>evs. (\<forall>ev \<in> set evs. \<not> is_unregister c ev)
             \<longrightarrow> c \<in> set (map fst (run A M evs (fst (tick A env clients)))))
       \<and> (\<forall>evs entity. c \<notin> set (map fst (unregister c entity (run A M evs (fst (tick A env clients))))))"
proof -
  let ?g = "(updatePhysics A e)\<lparr>Connected := False\<rparr>"
  let ?after = "fst (tick A env clients)"
  have keys: "map fst ?after = map fst clients"
    by (rule tick_keys)
  have g: "map_of ?after c = Some ?g"
    using assms by (simp add: tick_lookup)
  from assms(1) keys have d: "distinct (map fst ?after)"
    by simp
  have "map_of (physicsLoop A (map fst ?after) ?after) c = Some ?g"
    by (simp add: physics_lookup [OF d] g)
  then have "?g \<in> set (snapshot (physicsLoop A (map fst ?after) ?after))"
    by (rule lookup_snapshot)
  with g have 1: "\<exists>g. map_of ?after c = Some g \<and> \<not> Connected g \<and> ID g = ID e
            \<and> g \<in> set (snapshot (physicsLoop A (map fst ?after) ?after))"
    by simp
  have 2: "(c', data) \<in> set (snd (tick A env clients))"
    if "map_of clients c' = Some e'" "Connected e'" for c' e'
    using tick_writes_member [OF assms(1,2) that] .
  from g have member: "c \<in> set (map fst ?after)"
    by (rule lookup_member)
  have 3: "c \<in> set (map fst (run A M evs ?after))"
    if "\<forall>ev \<in> set evs. \<not> is_unregister c ev" for evs
    using that member by (rule run_keeps)
  have 4: "c \<notin> set (map fst (unregister c entity (run A M evs ?after)))" for evs entity
    by (simp add: unregister_keys)
  from 1 keys 2 3 4 show ?thesis by blast
qed

theorem ghost_window_witness:
  "\<exists>g. map_of (fst (tick exact \<lparr>Marshal = (\<lambda>es. Some ''{}''), WriteMessage = (\<lambda>c d. c \<noteq> 3)\<rparr>
           [(3, \<lparr>ID = ''3'', Position = \<lparr>X = 10, Y = 0\<rparr>, Velocity = \<lparr>X = 0, Y = 0\<rparr>, Connected = True\<rparr>),
            (5, \<lparr>ID = ''5'', Position = \<lparr>X = 0, Y = 20\<rparr>, Velocity = \<lparr>X = 0, Y = 0\<rparr>, Connected = True\<rparr>)]))
         3 = Some g \<and> \<not> Connected g \<and> ID g = ''3''"
proof -
  let ?e3 = "\<lparr>ID = ''3'', Position = \<lparr>X = 10, Y = 0\<rparr>, Velocity = \<lparr>X = 0, Y = 0\<rparr>, Connected = True\<rparr> :: real Entity"
  let ?e5 = "\<lparr>ID = ''5'', Position = \<lparr>X = 0, Y = 20\<rparr>, Velocity = \<lparr>X = 0, Y = 0\<rparr>, Connected = True\<rparr> :: real Entity"
  let ?env = "\<lparr>Marshal = (\<lambda>es. Some ''{}''), WriteMessage = (\<lambda>c d. c \<noteq> 3)\<rparr> :: real tick_env"
  let ?clients = "[(3 :: conn, ?e3), (5, ?e5)]"
  have 1: "distinct (map fst ?clients)"
    by simp
  have 2: "Marshal ?env (snapshot (physicsLoop exact (map fst ?clients) ?clients)) = Some ''{}''"
    by simp
  have 3: "map_of ?clients 3 = Some ?e3"
    by simp
  have 4: "Connected ?e3"
    by simp
  have 5: "\<not> WriteMessage ?env 3 ''{}''"
    by simp
  from ghost_window [OF 1 2 3 4 5, of exact_math]
  obtain g where "map_of (fst (tick exact ?env ?clients)) 3 = Some g" "\<not> Connected g" "ID g = ID ?e3"
    by blast
  then show ?thesis
    by auto
qed

text \<open>
  C5. If, during a tick whose snapshot was serialized, the write to one connected session
  fails, every other session that the fan-out loop finds connected is still written the
  same payload, and stays connected when its own write succeeds. The loop visits every
  session: the calls of \<open>WriteMessage\<close> are exactly one for each connected session, in the
  order of the iteration, and no session leaves the map.
\<close>

theorem fanout_resilience:
  assumes "distinct (map fst clients)"
    and "Marshal env (snapshot (physicsLoop A (map fst clients) clients)) = Some data"
    and "map_of (physicsLoop A (map fst clients) clients) c = Some e" and "Connected e"
    and "\<not> WriteMessage env c data"
    and "map_of (physicsLoop A (map fst clients) clients) c' = Some e'" and "Connected e'"
    and "c' \<noteq> c"
  shows "(c', data) \<in> set (snd (tick A env clients))
       \<and> (WriteMessage env c' data \<longrightarrow> map_of (fst (tick A env clients)) c' = Some e')
       \<and> map fst (snd (tick A env clients))
           = filter (\<lambda>k. \<exists>x. map_of (physicsLoop A (map fst clients) clients) k = Some x \<and> Connected x)
               (map fst clients)
       \<and> snd ` set (snd (tick A env clients)) \<subseteq> {data}
       \<and> map fst (fst (tick A env clients)) = map fst clients"
proof -
  let ?phys = "physicsLoop A (map fst clients) clients"
  have conn: "(\<lambda>k. \<exists>x. map_of ?phys k = Some x \<and> Connected x)
            = (\<lambda>k. \<exists>x. map_of clients k = Some x \<and> Connected x)"
    using physics_connected [OF assms(1)] by (intro ext)
  from assms(6,7) have "\<exists>x. map_of ?phys c' = Some x \<and> Connected x"
    by blast
  then obtain x where x: "map_of clients c' = Some x" "Connected x"
    unfolding physics_connected [OF assms(1)] by blast
  then have 1: "(c', data) \<in> set (snd (tick A env clients))"
    using tick_writes_member [OF assms(1,2)] by blast
  have 2: "map_of (fst (tick A env clients)) c' = Some e'" if "WriteMessage env c' data"
  proof -
    from x assms(1) have "map_of ?phys c' = Some (updatePhysics A x)"
      by (simp add: physics_lookup)
    with assms(6) have "e' = updatePhysics A x"
      by simp
    with x that show ?thesis
      by (simp add: tick_lookup [OF assms(1,2)])
  qed
  have 3: "map fst (snd (tick A env clients))
           = filter (\<lambda>k. \<exists>x. map_of ?phys k = Some x \<and> Connected x) (map fst clients)"
    unfolding conn tick_writes [OF assms(1,2)] by (simp add: comp_def)
  have 4: "snd ` set (snd (tick A env clients)) \<subseteq> {data}"
    unfolding tick_writes [OF assms(1,2)] by auto
  from 1 2 3 4 tick_keys [of A env clients] show ?thesis by blast
qed

theorem fanout_resilience_witness:
  "snd (tick exact \<lparr>Marshal = (\<lambda>es. Some ''{}''), WriteMessage = (\<lambda>c d. c \<noteq> 1)\<rparr>
           [(1, \<lparr>ID = ''1'', Position = \<lparr>X = 10, Y = 0\<rparr>, Velocity = \<lparr>X = 0, Y = 0\<rparr>, Connected = True\<rparr>),
            (2, \<lparr>ID = ''2'', Position = \<lparr>X = 10, Y = 0\<rparr>, Velocity = \<lparr>X = 0, Y = 0\<rparr>, Connected = True\<rparr>)])
     = [(1, ''{}''), (2, ''{}'')]
   \<and> (2, ''{}'') \<in> set (snd (tick exact \<lparr>Marshal = (\<lambda>es. Some ''{}''), WriteMessage = (\<lambda>c d. c \<noteq> 1)\<rparr>
           [(1, \<lparr>ID = ''1'', Position = \<lparr>X = 10, Y = 0\<rparr>, Velocity = \<lparr>X = 0, Y = 0\<rparr>, Connected = True\<rparr>),
            (2, \<lparr>ID = ''2'', Position = \<lparr>X = 10, Y = 0\<rparr>, Velocity = \<lparr>X = 0, Y = 0\<rparr>, Connected = True\<rparr>)]))"
proof -
  let ?e1 = "\<lparr>ID = ''1'', Position = \<lparr>X = 10, Y = 0\<rparr>, Velocity = \<lparr>X = 0, Y = 0\<rparr>, Connected = True\<rparr> :: real Entity"
  let ?e2 = "\<lparr>ID = ''2'', Position = \<lparr>X = 10, Y = 0\<rparr>, Velocity = \<lparr>X = 0, Y = 0\<rparr>, Connected = True\<rparr> :: real Entity"
  let ?env = "\<lparr>Marshal = (\<lambda>es. Some ''{}''), WriteMessage = (\<lambda>c d. c \<noteq> 1)\<rparr> :: real tick_env"
  have w: "snd (tick exact ?env [(1, ?e1), (2, ?e2)]) = [(1, ''{}''), (2, ''{}'')]"
    by (simp add: tick_def Let_def)
  let ?clients = "[(1 :: conn, ?e1), (2, ?e2)]"
  have 1: "distinct (map fst ?clients)"
    by simp
  have 2: "Marshal ?env (snapshot (physicsLoop exact (map fst ?clients) ?clients)) = Some ''{}''"
    by simp
  have 3: "map_of (physicsLoop exact (map fst ?clients) ?clients) 1 = Some (updatePhysics exact ?e1)"
    by (simp add: physics_lookup del: One_nat_def)
  have 4: "Connected (updatePhysics exact ?e1)"
    by simp
  have 5: "\<not> WriteMessage ?env 1 ''{}''"
    by simp
  have 6: "map_of (physicsLoop exact (map fst ?clients) ?clients) 2 = Some (updatePhysics exact ?e2)"
    by (simp add: physics_lookup del: One_nat_def)
  have 7: "Connected (updatePhysics exact ?e2)"
    by simp
  have 8: "(2 :: conn) \<noteq> 1"
    by simp
  from fanout_resilience [OF 1 2 3 4 5 6 7 8]
  have "(2, ''{}'') \<in> set (snd (tick exact ?env [(1, ?e1), (2, ?e2)]))"
    by blast
  with w show ?thesis by blast
qed

text \<open>
  C6. If \<open>json.Marshal\<close> fails in a tick, the tick makes no call of \<open>WriteMessage\<close> and leaves
  the map as the physics loop of that very tick produced it: every connected entity
  keeps its new velocity and position. The loop goes on: the next tick starts from that
  map.
\<close>

theorem serialization_failure:
  assumes "Marshal env (snapshot (physicsLoop A (map fst clients) clients)) = None"
  shows "snd (tick A env clients) = []
       \<and> fst (tick A env clients) = physicsLoop A (map fst clients) clients
       \<and> (distinct (map fst clients) \<longrightarrow>
            (\<forall>c. map_of (fst (tick A env clients)) c
                 = map_option (\<lambda>e. if Connected e then updatePhysics A e else e) (map_of clients c)))
       \<and> run A M (Tick env # Tick env' # evs) clients
           = run A M evs (fst (tick A env' (physicsLoop A (map fst clients) clients)))"
  using assms by (simp add: tick_failed physics_lookup)

theorem serialization_failure_witness:
  "tick exact \<lparr>Marshal = (\<lambda>es. None), WriteMessage = (\<lambda>c d. True)\<rparr>
     [(1, \<lparr>ID = ''1'', Position = \<lparr>X = 10, Y = 0\<rparr>, Velocity = \<lparr>X = 0, Y = 0\<rparr>, Connected = True\<rparr>)]
   = ([(1, \<lparr>ID = ''1'', Position = \<lparr>X = 9.999744, Y = 0\<rparr>, Velocity = \<lparr>X = - 0.016, Y = 0\<rparr>,
           Connected = True\<rparr>)], [])"
  using serialization_failure [of "\<lparr>Marshal = (\<lambda>es. None), WriteMessage = (\<lambda>c d. True)\<rparr>" exact
      "[(1, \<lparr>ID = ''1'', Position = \<lparr>X = 10, Y = 0\<rparr>, Velocity = \<lparr>X = 0, Y = 0\<rparr>, Connected = True\<rparr>)]"]
  by (simp add: prod_eq_iff updatePhysics_def Let_def accel_exact magnitude_axis scale_def TimeStep_def)

text \<open>
  C8 as stated fails: the timestep of the integration is the constant \<open>TimeStep = 0.016\<close>,
  which is not \<open>1 / 60\<close>; after one tick from rest at \<open>(10, 0)\<close> the velocity is \<open>- 0.016\<close>, where
  a timestep of \<open>1 / 60\<close> would give \<open>- 1 / 60\<close>.
\<close>

theorem timestep_counterexample:
  "TimeStep \<noteq> 1 / 60
   \<and> X (Velocity (updatePhysics exact
          \<lparr>ID = ''1'', Position = \<lparr>X = 10, Y = 0\<rparr>, Velocity = \<lparr>X = 0, Y = 0\<rparr>, Connected = True\<rparr>))
       = - (16 / 1000)
   \<and> X (gravitationalAccel exact \<lparr>X = 10, Y = 0\<rparr>) * (1 / 60) \<noteq> - (16 / 1000)"
  by (simp add: updatePhysics_def Let_def accel_exact magnitude_axis scale_def TimeStep_def)

text \<open>
  C8, amended. The timestep of the integration is the fixed constant \<open>0.016\<close> per tick: in
  every tick, whatever the serialization and the writes of that tick do, a connected
  entity gets the velocity \<open>v + a * 0.016\<close> and the position \<open>p + v' * 0.016\<close>, with \<open>a\<close> the
  acceleration at \<open>p\<close> and \<open>v'\<close> the new velocity. No reading of a clock enters the tick.
\<close>

theorem fixed_timestep:
  assumes "distinct (map fst clients)" and "map_of clients c = Some e" and "Connected e"
  shows "TimeStep = 16 / 1000
       \<and> (\<exists>e'. map_of (fst (tick exact env clients)) c = Some e'
            \<and> Velocity e' =
                \<lparr>X = X (Velocity e) + X (gravitationalAccel exact (Position e)) * (16 / 1000),
                 Y = Y (Velocity e) + Y (gravitationalAccel exact (Position e)) * (16 / 1000)\<rparr>
            \<and> Position e' =
                \<lparr>X = X (Position e) + X (Velocity e') * (16 / 1000),
                 Y = Y (Position e) + Y (Velocity e') * (16 / 1000)\<rparr>)"
proof -
  obtain e' where e': "map_of (fst (tick exact env clients)) c = Some e'"
      "Velocity e' = Velocity (updatePhysics exact e)" "Position e' = Position (updatePhysics exact e)"
    using tick_connected [OF assms] by blast
  have "Velocity e' =
          \<lparr>X = X (Velocity e) + X (gravitationalAccel exact (Position e)) * (16 / 1000),
           Y = Y (Velocity e) + Y (gravitationalAccel exact (Position e)) * (16 / 1000)\<rparr>"
    unfolding e'(2) updatePhysics_Velocity by (simp add: TimeStep_def)
  moreover have "Position e' =
          \<lparr>X = X (Position e) + X (Velocity e') * (16 / 1000),
           Y = Y (Position e) + Y (Velocity e') * (16 / 1000)\<rparr>"
    unfolding e'(2,3) updatePhysics_Position by (simp add: TimeStep_def)
  ultimately show ?thesis
    using e'(1) by (simp add: TimeStep_def)
qed

theorem fixed_timestep_witness:
  "\<exists>e'. map_of (fst (tick exact \<lparr>Marshal = (\<lambda>es. None), WriteMessage = (\<lambda>c d. True)\<rparr>
            [(3, \<lparr>ID = ''3'', Position = \<lparr>X = 10, Y = 0\<rparr>, Velocity = \<lparr>X = 0, Y = 0\<rparr>, Connected = True\<rparr>)]))
          3 = Some e'
        \<and> Velocity e' = \<lparr>X = - (16 / 1000), Y = 0\<rparr>"
proof -
  let ?e3 = "\<lparr>ID = ''3'', Position = \<lparr>X = 10, Y = 0\<rparr>, Velocity = \<lparr>X = 0, Y = 0\<rparr>, Connected = True\<rparr> :: real Entity"
  let ?env = "\<lparr>Marshal = (\<lambda>es. None), WriteMessage = (\<lambda>c d. True)\<rparr> :: real tick_env"
  have 1: "distinct (map fst [(3 :: conn, ?e3)])"
    by simp
  have 2: "map_of [(3 :: conn, ?e3)] 3 = Some ?e3"
    by simp
  have 3: "Connected ?e3"
    by simp
  from fixed_timestep [OF 1 2 3, of ?env]
  obtain e' where "map_of (fst (tick exact ?env [(3, ?e3)])) 3 = Some e'"
    and "Velocity e' =
          \<lparr>X = X (Velocity ?e3) + X (gravitationalAccel exact (Position ?e3)) * (16 / 1000),
           Y = Y (Velocity ?e3) + Y (gravitationalAccel exact (Position ?e3)) * (16 / 1000)\<rparr>"
    by blast
  then show ?thesis
    by (simp add: accel_exact magnitude_axis scale_def)
qed

section \<open>Registration\<close>





section \<open>Identifiers\<close>



declare decimal.simps [simp del]





section \<open>Handles and identifiers of the map\<close>















section \<open>No division by zero\<close>

lemma ilog2_le:
  assumes "0 < a"
  shows "2 powi (ilog2 a) \<le> a"
proof (cases "1 \<le> a")
  case True
  then have pos: "0 < \<lfloor>a\<rfloor>"
    by simp
  then have "1 \<le> bitlen \<lfloor>a\<rfloor>"
    by (simp add: bitlen_alt_def)
  then have "(2 :: real) powi (bitlen \<lfloor>a\<rfloor> - 1) = 2 ^ nat (bitlen \<lfloor>a\<rfloor> - 1)"
    by (simp add: power_int_nonneg_exp)
  also have "\<dots> = of_int (2 ^ nat (bitlen \<lfloor>a\<rfloor> - 1))"
    by simp
  also have "\<dots> \<le> of_int \<lfloor>a\<rfloor>"
    using bitlen_bounds [OF pos] by (intro of_int_le_iff [THEN iffD2]) simp
  also have "\<dots> \<le> a"
    by simp
  finally show ?thesis
    using True by (simp add: ilog2_def)
next
  case False
  let ?n = "\<lceil>1 / a\<rceil> - 1"
  from False assms have "1 < 1 / a"
    by simp
  then have n: "0 < ?n"
    by (simp add: less_ceiling_iff)
  have "1 / a \<le> of_int \<lceil>1 / a\<rceil>"
    by simp
  also have "\<lceil>1 / a\<rceil> \<le> 2 ^ nat (bitlen ?n)"
    using bitlen_bounds [OF n] by simp
  finally have "1 / a \<le> 2 ^ nat (bitlen ?n)"
    by simp
  with assms have "1 / 2 ^ nat (bitlen ?n) \<le> a"
    by (simp add: field_simps)
  moreover have "(2 :: real) powi (- bitlen ?n) = 1 / 2 ^ nat (bitlen ?n)"
    using bitlen_nonneg [of ?n] by (simp add: power_int_minus_divide power_int_nonneg_exp)
  ultimately show ?thesis
    using False by (simp add: ilog2_def)
qed

lemma rne_ge: "1 \<le> x \<Longrightarrow> 1 \<le> rne x"
proof -
  assume "1 \<le> x"
  then have "1 \<le> \<lfloor>x\<rfloor>"
    by simp
  then show ?thesis
    by (simp add: rne_def Let_def)
qed

lemma round64_not_zero:
  assumes "2 powi (- 1074) \<le> a"
  shows "\<not> is_zero (round64 s a)"
proof -
  have "(0 :: real) < 2 powi (- 1074)"
    by (rule zero_less_power_int) simp
  with assms have pos: "0 < a"
    by simp
  let ?e = "max (ilog2 a - 52) (- 1074)"
  have "(2 :: real) powi ?e \<le> a"
  proof (cases "ilog2 a - 52 \<le> - 1074")
    case True
    then have "?e = - 1074"
      by simp
    with assms show ?thesis
      by simp
  next
    case False
    then have "?e = ilog2 a - 52"
      by simp
    moreover have "(2 :: real) powi (ilog2 a - 52) \<le> 2 powi (ilog2 a)"
      by (rule power_int_increasing) simp_all
    ultimately show ?thesis
      using ilog2_le [OF pos] by simp
  qed
  moreover have p: "(0 :: real) < 2 powi ?e"
    by (rule zero_less_power_int) simp
  ultimately have "1 \<le> a / 2 powi ?e"
    by (simp add: field_simps)
  then have "1 \<le> rne (a / 2 powi ?e)"
    by (rule rne_ge)
  then have "rne (a / 2 powi ?e) \<noteq> 0"
    by simp
  with pos show ?thesis
    by (simp add: round64_def Let_def)
qed


lemma clamp_cases:
  assumes "0 < cv"
  shows "(if f64_less x (Finite False cv) then Finite False cv else x) = Finite False cv
       \<or> x = NaN \<or> (\<exists>s. x = Infinity s)
       \<or> (\<exists>s a. x = Finite s a \<and> cv \<le> fval s a)"
  by (cases x) (auto simp: fval_def)

lemma clampedRadius64_cases:
  "clampedRadius binary64 pos = Finite False (3602879701896397 / 36028797018963968)
   \<or> clampedRadius binary64 pos = NaN
   \<or> (\<exists>s. clampedRadius binary64 pos = Infinity s)
   \<or> (\<exists>s a. clampedRadius binary64 pos = Finite s a
          \<and> 3602879701896397 / 36028797018963968 \<le> fval s a)"
proof -
  let ?x = "f64_sqrt (f64_add (f64_mul (X pos) (X pos)) (f64_mul (Y pos) (Y pos)))"
  let ?cv = "3602879701896397 / 36028797018963968 :: real"
  have r: "clampedRadius binary64 pos
             = (if f64_less ?x (Finite False ?cv) then Finite False ?cv else ?x)"
    by (simp add: clampedRadius_def Let_def f64_const_tenth)
  have "(0 :: real) < ?cv"
    by simp
  from clamp_cases [OF this, of ?x] show ?thesis
    unfolding r by (auto split: if_splits)
qed

lemma tiny_le_hundredth: "(2 :: real) powi (- 1074) \<le> 1 / 256"
proof -
  have "(2 :: real) powi (- 1074) \<le> 2 powi (- 8)"
    by (rule power_int_increasing) simp_all
  then show ?thesis
    by (simp add: power_int_minus_divide)
qed

lemma square_above_floor:
  assumes "3602879701896397 / 36028797018963968 \<le> fval s a"
  shows "2 powi (- 1074) \<le> a * a" and "a \<noteq> 0"
proof -
  have "(1 / 16 :: real) \<le> 3602879701896397 / 36028797018963968"
    by simp
  with assms have f: "1 / 16 \<le> fval s a"
    by simp
  then have "(1 / 16) * (1 / 16) \<le> fval s a * fval s a"
    by (intro mult_mono) simp_all
  moreover have "fval s a * fval s a = a * a"
    by (simp add: fval_def)
  ultimately have "1 / 256 \<le> a * a"
    by simp
  with tiny_le_hundredth show "2 powi (- 1074) \<le> a * a"
    by simp
  from f show "a \<noteq> 0"
    by (auto simp: fval_def split: if_splits)
qed

lemma divisors_not_zero:
  "\<not> is_zero (clampedRadius binary64 pos)
   \<and> \<not> is_zero (f64_mul (clampedRadius binary64 pos) (clampedRadius binary64 pos))"
proof -
  let ?cv = "3602879701896397 / 36028797018963968 :: real"
  have c: "?cv \<le> fval False ?cv"
    by (simp add: fval_def)
  consider "clampedRadius binary64 pos = Finite False ?cv"
    | "clampedRadius binary64 pos = NaN"
    | s where "clampedRadius binary64 pos = Infinity s"
    | s a where "clampedRadius binary64 pos = Finite s a" "?cv \<le> fval s a"
    using clampedRadius64_cases [of pos] by blast
  then show ?thesis
  proof cases
    case 1
    with square_above_floor [OF c] show ?thesis
      by (simp add: round64_not_zero)
  next
    case 2
    then show ?thesis by simp
  next
    case 3
    then show ?thesis by simp
  next
    case 4
    with square_above_floor [OF 4(2)] show ?thesis
      by (simp add: round64_not_zero)
  qed
qed

lemma force64_floor:
  "f64_div (Finite True 100)
     (f64_mul (Finite False (3602879701896397 / 36028797018963968))
        (Finite False (3602879701896397 / 36028797018963968)))
   = Finite True (5497558138879999 / 549755813888)"
  by (simp add: f64_eval)

lemma accel64_origin:
  "gravitationalAccel binary64 \<lparr>X = Finite s 0, Y = Finite t 0\<rparr>
     = \<lparr>X = Finite (\<not> s) 0, Y = Finite (\<not> t) 0\<rparr>"
proof -
  have r: "clampedRadius binary64 \<lparr>X = Finite s 0, Y = Finite t 0\<rparr>
             = Finite False (3602879701896397 / 36028797018963968)"
    by (simp add: clampedRadius_def f64_const_tenth round64_def fval_def)
  show ?thesis
    by (simp add: gravitationalAccel_def r G_def StarMass_def f64_eval)
qed


text \<open>
  C10. \<open>gravitationalAccel\<close> returns a vector for every pair of \<^verbatim>\<open>float64\<close> inputs: it has no
  failing operation, and its only divisions are by the clamped radius and by its square.
  For every input, the infinities and NaN included, neither divisor is a zero of either
  sign, because the radius is clamped before the divisions. At the origin the result is
  the zero vector, not NaN and not an infinity: each component is the zero of the sign
  opposite to the input's (so \<open>(-0, -0)\<close> for the position \<open>(0, 0)\<close>), which equals \<open>0\<close>
  under \<^verbatim>\<open>==\<close>. In exact arithmetic the clamped radius is at least \<open>0.1\<close> and the
  result at the origin is \<open>(0, 0)\<close>.
\<close>

theorem accel_total:
  "gravitationalAccel binary64 pos =
     \<lparr>X = f64_mul (f64_div (Finite True 100)
                  (f64_mul (clampedRadius binary64 pos) (clampedRadius binary64 pos)))
            (f64_div (X pos) (clampedRadius binary64 pos)),
      Y = f64_mul (f64_div (Finite True 100)
                  (f64_mul (clampedRadius binary64 pos) (clampedRadius binary64 pos)))
            (f64_div (Y pos) (clampedRadius binary64 pos))\<rparr>
   \<and> \<not> is_zero (clampedRadius binary64 pos)
   \<and> \<not> is_zero (f64_mul (clampedRadius binary64 pos) (clampedRadius binary64 pos))
   \<and> gravitationalAccel binary64 \<lparr>X = f64_const 0, Y = f64_const 0\<rparr>
       = \<lparr>X = Finite True 0, Y = Finite True 0\<rparr>
   \<and> (\<forall>s t. f64_eq (X (gravitationalAccel binary64 \<lparr>X = Finite s 0, Y = Finite t 0\<rparr>))
                 (f64_const 0)
          \<and> f64_eq (Y (gravitationalAccel binary64 \<lparr>X = Finite s 0, Y = Finite t 0\<rparr>))
                 (f64_const 0))
   \<and> 1 / 10 \<le> clampedRadius exact p
   \<and> gravitationalAccel exact \<lparr>X = 0, Y = 0\<rparr> = \<lparr>X = 0, Y = 0\<rparr>"
proof -
  have 1: "gravitationalAccel binary64 pos =
     \<lparr>X = f64_mul (f64_div (Finite True 100)
                  (f64_mul (clampedRadius binary64 pos) (clampedRadius binary64 pos)))
            (f64_div (X pos) (clampedRadius binary64 pos)),
      Y = f64_mul (f64_div (Finite True 100)
                  (f64_mul (clampedRadius binary64 pos) (clampedRadius binary64 pos)))
            (f64_div (Y pos) (clampedRadius binary64 pos))\<rparr>"
    unfolding gravitationalAccel_def Let_def binary64_sel f64_const_force ..
  have 2: "gravitationalAccel binary64 \<lparr>X = f64_const 0, Y = f64_const 0\<rparr>
       = \<lparr>X = Finite True 0, Y = Finite True 0\<rparr>"
    by (simp add: f64_const_0 accel64_origin)
  have 3: "f64_eq (X (gravitationalAccel binary64 \<lparr>X = Finite s 0, Y = Finite t 0\<rparr>))
              (f64_const 0)
          \<and> f64_eq (Y (gravitationalAccel binary64 \<lparr>X = Finite s 0, Y = Finite t 0\<rparr>))
              (f64_const 0)" for s t
    by (simp add: accel64_origin f64_const_0 fval_def)
  have 4: "1 / 10 \<le> clampedRadius exact p"
    by (simp add: clampedRadius_exact)
  have 5: "gravitationalAccel exact \<lparr>X = 0, Y = 0\<rparr> = \<lparr>X = 0, Y = 0\<rparr>"
    by (simp add: accel_exact scale_def)
  from 1 divisors_not_zero [of pos] 2 3 4 5 show ?thesis
    by blast
qed

theorem accel_total_witness:
  "clampedRadius binary64 \<lparr>X = f64_const 3, Y = f64_const 4\<rparr> = f64_const 5
   \<and> \<not> is_zero (clampedRadius binary64 \<lparr>X = f64_const 3, Y = f64_const 4\<rparr>)
   \<and> gravitationalAccel binary64 \<lparr>X = f64_const 0, Y = f64_const 0\<rparr>
       = \<lparr>X = Finite True 0, Y = Finite True 0\<rparr>"
proof -
  have "clampedRadius binary64 \<lparr>X = f64_const 3, Y = f64_const 4\<rparr> = f64_const 5"
    by (simp add: clampedRadius_def f64_eval isqrt.simps)
  with accel_total [of "\<lparr>X = f64_const 3, Y = f64_const 4\<rparr>"] show ?thesis
    by blast
qed

end
